theory Spec2Isabelle
  imports Complex_Main
begin

section \<open>Values, events and the traced state\<close>

text \<open>
  The library is a set of React components and one hook (\<^verbatim>\<open>src/pkgs/lightbox/src/index.tsx\<close>).
  Every handler of the source is embedded as a function from the state it reads to the state
  it leaves. Calls that leave the component (consumer callbacks, gesture-library calls,
  DOM-event methods) and every write of a React state cell are appended to a trace, in the
  order the source performs them, so that "fires", "exactly once" and "before" are
  statements about that trace.

  JavaScript numbers that hold indices are modelled as \<open>int\<close>, numbers that hold pixel
  values and scales as \<open>real\<close> (no NaN, no rounding). A state update is applied at the
  moment the setter is called; React's deferred application of an updater is not modelled.
  A handler is a function of the context it was rendered with and of the hook's state; the
  two are separate arguments, since the context is memoised and may hold an older item list.
\<close>

text \<open>Items are opaque consumer values; the viewport asks for their truthiness only.\<close>

datatype jsval = JUndefined | JNull | JBool bool | JNum int | JStr string | JObj nat

fun truthy :: "jsval \<Rightarrow> bool" where
  "truthy JUndefined = False"
| "truthy JNull = False"
| "truthy (JBool b) = b"
| "truthy (JNum n) = (n \<noteq> 0)"
| "truthy (JStr s) = (s \<noteq> [])"
| "truthy (JObj r) = True"

datatype event =
    SetOpen nat "int option"
  | SetOffset real
  | SetTransform real real real
  | SetSwipeOffsetY real
  | VisibilityChange bool
  | LoadNext
  | OnClick
  | OnKeyDown
  | OnClose
  | RequestClose
  | ZoomChange bool
  | Cancel
  | StopPropagation
  | PreventDefault
  | ConsoleLog string

text \<open>
  \<open>SetOpen v n\<close>: the state setter of the \<open>LightboxView\<close> instance \<open>v\<close> stored \<open>n\<close>.
  \<open>SetOffset\<close>: the viewport's drag offset was written; \<open>SetTransform\<close> and
  \<open>SetSwipeOffsetY\<close>: the two state cells of a pinchable wrapper were written. \<open>OnClick\<close>, \<open>OnKeyDown\<close>,
  \<open>OnClose\<close>, \<open>RequestClose\<close>, \<open>ZoomChange\<close>: the optional consumer props
  \<^verbatim>\<open>onClick?.(e)\<close>, \<^verbatim>\<open>onKeyDown?.(e)\<close>, \<^verbatim>\<open>$onClose?.()\<close>, \<^verbatim>\<open>onRequestClose?.(e)\<close>,
  \<^verbatim>\<open>onZoomChange?.(b)\<close> were called (the call site was reached; an absent prop makes the
  call a no-op). \<open>Cancel\<close> is the gesture library's \<^verbatim>\<open>cancel()\<close>.
\<close>

record traced =
  trace :: "event list"

definition emit :: "event \<Rightarrow> 'z traced_scheme \<Rightarrow> 'z traced_scheme" where
  "emit e s = s\<lparr>trace := trace s @ [e]\<rparr>"

section \<open>The controlling hook: \<^verbatim>\<open>useLightbox\<close>\<close>

text \<open>
  \<open>items\<close> is \<^verbatim>\<open>items.current\<close>; \<open>setOpens\<close> is the subscriber set \<^verbatim>\<open>setOpens.current\<close>
  (a JavaScript \<^verbatim>\<open>Set\<close>: no duplicates, iterated in insertion order), each subscriber
  named by the number of its \<open>LightboxView\<close> instance; \<open>isOpen v\<close> is the state cell
  \<^verbatim>\<open>const [isOpen, setOpen] = useState(null)\<close> of instance \<open>v\<close>.
\<close>

record 'a hook = traced +
  items :: "'a list"
  setOpens :: "nat list"
  isOpen :: "nat \<Rightarrow> int option"

text \<open>The argument of a React state setter: a value or an updater of the previous value.\<close>

datatype index_action = Index "int option" | Updater "int option \<Rightarrow> int option"

definition setOpen :: "nat \<Rightarrow> index_action \<Rightarrow> ('a, 'z) hook_scheme \<Rightarrow> ('a, 'z) hook_scheme" where
  "setOpen v a h =
     (let prev = isOpen h v;
          next = (case a of Index n \<Rightarrow> n | Updater f \<Rightarrow> f prev)
      in emit (SetOpen v next) (h\<lparr>isOpen := (isOpen h)(v := next)\<rparr>))"

text \<open>The render pass of the hook: \<^verbatim>\<open>items.current = []\<close>.\<close>

definition useLightbox_render :: "('a, 'z) hook_scheme \<Rightarrow> ('a, 'z) hook_scheme" where
  "useLightbox_render h = h\<lparr>items := []\<rparr>"

text \<open>The effect of \<open>LightboxView\<close> that subscribes on mount and unsubscribes on unmount.\<close>

definition subscribe :: "nat \<Rightarrow> ('a, 'z) hook_scheme \<Rightarrow> ('a, 'z) hook_scheme" where
  "subscribe v h = (if v \<in> set (setOpens h) then h else h\<lparr>setOpens := setOpens h @ [v]\<rparr>)"

definition unsubscribe :: "nat \<Rightarrow> ('a, 'z) hook_scheme \<Rightarrow> ('a, 'z) hook_scheme" where
  "unsubscribe v h = h\<lparr>setOpens := removeAll v (setOpens h)\<rparr>"

text \<open>
  \<^verbatim>\<open>setIndex\<close> (the context's \<^verbatim>\<open>setCurrentIndex\<close>). \<^verbatim>\<open>next ? clamp(next) : next\<close> tests
  the truthiness of a number or null: null and 0 take the second branch.
\<close>

definition setIndex :: "nat \<Rightarrow> index_action \<Rightarrow> ('a, 'z) hook_scheme \<Rightarrow> ('a, 'z) hook_scheme" where
  "setIndex v index h =
     setOpen v (Updater (\<lambda>prev.
       let next = (case index of Updater f \<Rightarrow> f prev | Index n \<Rightarrow> n)
       in (case next of
             None \<Rightarrow> next
           | Some n \<Rightarrow>
               if n \<noteq> 0 then Some (max 0 (min n (int (length (items h)) - 1)))
               else next))) h"

text \<open>\<^verbatim>\<open>handleClose\<close> (the context's \<^verbatim>\<open>close\<close>).\<close>

definition handleClose :: "nat \<Rightarrow> ('a, 'z) hook_scheme \<Rightarrow> ('a, 'z) hook_scheme" where
  "handleClose v h = emit (VisibilityChange False) (setOpen v (Index None) h)"

text \<open>
  \<^verbatim>\<open>getOnClick(item, onClick)\<close> pushes the item and returns a handler that closes over
  \<open>itemIndex\<close>; the model returns that index with the new state, and \<open>getOnClick_handler\<close>
  is the returned function. \<open>prevented\<close> is \<^verbatim>\<open>e.defaultPrevented\<close> as read after the
  consumer's \<^verbatim>\<open>onClick\<close> has run.
\<close>

definition getOnClick :: "'a \<Rightarrow> ('a, 'z) hook_scheme \<Rightarrow> int \<times> ('a, 'z) hook_scheme" where
  "getOnClick item h =
     (let h' = h\<lparr>items := items h @ [item]\<rparr>;
          itemIndex = int (length (items h')) - 1
      in (itemIndex, h'))"

definition getOnClick_handler :: "int \<Rightarrow> bool \<Rightarrow> ('a, 'z) hook_scheme \<Rightarrow> ('a, 'z) hook_scheme" where
  "getOnClick_handler itemIndex prevented h =
     (let h1 = emit OnClick h
      in if prevented then h1
         else foldl (\<lambda>s v. emit (VisibilityChange True) (setOpen v (Index (Some itemIndex)) s))
                h1 (setOpens h1))"

text \<open>
  The context a \<open>LightboxView\<close> instance hands to the shell components: the item list and
  the current index as of the render that built it. \<open>context_of\<close> is the factory inside
  \<^verbatim>\<open>useMemo(() => ({items: items.current, currentIndex: isOpen, ...}), deps)\<close>: what the
  memo holds when a render recomputes it.
\<close>

record 'a lightbox_context =
  ctx_items :: "'a list"
  currentIndex :: "int option"

definition context_of :: "nat \<Rightarrow> ('a, 'z) hook_scheme \<Rightarrow> 'a lightbox_context" where
  "context_of v h = \<lparr>ctx_items = items h, currentIndex = isOpen h v\<rparr>"

text \<open>
  The memo itself, at a render of instance \<open>v\<close>: \<open>prev\<close> is the context the previous
  render held (\<open>None\<close> at the first render). The dependencies are
  \<^verbatim>\<open>[isOpen, setIndex, handleClose, preventScrollWhileOpen]\<close>; the two callbacks have a
  fixed identity, and a change of \<^verbatim>\<open>preventScrollWhileOpen\<close> replaces the component and
  with it the instance, so within the life of an instance the memo is recomputed exactly
  when \<open>isOpen\<close> differs from the value the held context was built with. The item list is
  not a dependency: a render pass that registers other items leaves the held context, and
  the item array in it, as they were. The handlers read the context; \<^verbatim>\<open>setIndex\<close> reads
  \<^verbatim>\<open>items.current\<close>.
\<close>

definition LightboxView_context ::
  "nat \<Rightarrow> 'a lightbox_context option \<Rightarrow> ('a, 'z) hook_scheme \<Rightarrow> 'a lightbox_context" where
  "LightboxView_context v prev h =
     (case prev of
        None \<Rightarrow> context_of v h
      | Some ctx \<Rightarrow> if currentIndex ctx = isOpen h v then ctx else context_of v h)"

section \<open>The shell components\<close>

subsection \<open>\<^verbatim>\<open>Lightbox.Root\<close>: keyboard navigation\<close>



subsection \<open>\<^verbatim>\<open>Lightbox.Viewport\<close>: windowing\<close>

text \<open>
  \<^verbatim>\<open>items[index]\<close>: an index outside the array reads \<^verbatim>\<open>undefined\<close>.
\<close>

definition item_at :: "jsval list \<Rightarrow> int \<Rightarrow> jsval" where
  "item_at its i = (if 0 \<le> i \<and> i < int (length its) then its ! nat i else JUndefined)"

definition visibleIndices :: "'a lightbox_context \<Rightarrow> int list" where
  "visibleIndices ctx =
     (case currentIndex ctx of
        None \<Rightarrow> []
      | Some c \<Rightarrow> filter (\<lambda>i. i \<ge> 0 \<and> i < int (length (ctx_items ctx))) [c - 1, c, c + 1])"

text \<open>
  The indices for which the viewport's \<^verbatim>\<open>map\<close> callback returns an element (an item slot)
  rather than null: \<^verbatim>\<open>if (!item) return null\<close>.
\<close>

definition Viewport_slots :: "jsval lightbox_context \<Rightarrow> int list" where
  "Viewport_slots ctx =
     filter (\<lambda>index. truthy (item_at (ctx_items ctx) index)) (visibleIndices ctx)"

text \<open>The spec's window: the three neighbouring indices clipped to the valid range.\<close>

definition spec_window :: "int \<Rightarrow> nat \<Rightarrow> int set" where
  "spec_window c n = {c - 1, c, c + 1} \<inter> {0 ..< int n}"

subsection \<open>\<^verbatim>\<open>Lightbox.Item\<close>: drag navigation\<close>

text \<open>
  The state of a gesture as the library hands it to a handler: \<open>mx\<close>, \<open>my\<close> are
  \<^verbatim>\<open>movement\<close>, \<open>xDir\<close> is \<^verbatim>\<open>direction[0]\<close>, \<open>ix\<close> is \<^verbatim>\<open>initial[0]\<close>, \<open>ox\<close>, \<open>oy\<close> are
  \<^verbatim>\<open>offset\<close>.
\<close>

record drag_state =
  down :: bool
  mx :: real
  my :: real
  xDir :: real
  ix :: real
  ox :: real
  oy :: real
  pinching :: bool

text \<open>The viewport owns the drag offset (\<^verbatim>\<open>const [offsetX, setOffsetX] = useState(0)\<close>).\<close>

record 'a viewport = "'a hook" +
  offsetX :: real

definition setOffset :: "real \<Rightarrow> ('a, 'z) viewport_scheme \<Rightarrow> ('a, 'z) viewport_scheme" where
  "setOffset x s = emit (SetOffset x) (s\<lparr>offsetX := x\<rparr>)"

text \<open>
  \<open>rootWidth\<close> is \<^verbatim>\<open>rootRef.current?.clientWidth\<close>: \<open>None\<close> when no root element is
  mounted. \<^verbatim>\<open>await onLoadNext()\<close> is taken to return.
\<close>

definition Item_onDrag ::
  "'a lightbox_context \<Rightarrow> real option \<Rightarrow> nat \<Rightarrow> drag_state \<Rightarrow>
   ('a, 'z) viewport_scheme \<Rightarrow> ('a, 'z) viewport_scheme" where
  "Item_onDrag ctx rootWidth v g s =
     (case currentIndex ctx of
        None \<Rightarrow> s
      | Some c \<Rightarrow>
          if down g \<and>
             (case rootWidth of
                None \<Rightarrow> False
              | Some width \<Rightarrow>
                  let edgeThreshold = width * 0.35
                  in ix g > edgeThreshold \<and> ix g < width - edgeThreshold)
          then emit Cancel s
          else if down g then setOffset (mx g) s
          else
            (let threshold = 100;
                 s1 = (if \<bar>mx g\<bar> > threshold then
                         (let nextIndex = c + (if xDir g < 0 then 1 else - 1);
                              s0 = (if nextIndex \<ge> int (length (ctx_items ctx)) - 1
                                    then emit LoadNext s else s)
                          in setIndex v
                               (Index (Some (min (max nextIndex 0)
                                               (int (length (ctx_items ctx)) - 1)))) s0)
                       else s)
             in setOffset 0 s1))"

subsection \<open>\<^verbatim>\<open>Lightbox.Pinchable\<close>: zoom, pan and swipe-to-close\<close>

text \<open>The transform \<^verbatim>\<open>{scale, x, y}\<close>; its pan fields are named \<open>tx\<close> and \<open>ty\<close> here.\<close>

record transform_state =
  scale :: real
  tx :: real
  ty :: real

record pinchable = traced +
  transform :: transform_state
  swipeOffsetY :: real

definition Pinchable_init :: pinchable where
  "Pinchable_init =
     \<lparr>trace = [], transform = \<lparr>scale = 1, tx = 0, ty = 0\<rparr>, swipeOffsetY = 0\<rparr>"

definition setTransform :: "transform_state \<Rightarrow> pinchable \<Rightarrow> pinchable" where
  "setTransform t p = emit (SetTransform (scale t) (tx t) (ty t)) (p\<lparr>transform := t\<rparr>)"

definition setSwipeOffsetY :: "real \<Rightarrow> pinchable \<Rightarrow> pinchable" where
  "setSwipeOffsetY d p = emit (SetSwipeOffsetY d) (p\<lparr>swipeOffsetY := d\<rparr>)"

definition Pinchable_onDrag :: "drag_state \<Rightarrow> pinchable \<Rightarrow> pinchable" where
  "Pinchable_onDrag g p =
     (let p0 = (if scale (transform p) \<noteq> 1 then emit StopPropagation p else p)
      in if pinching g then emit Cancel p0
         else if scale (transform p) > 1 then
           setTransform \<lparr>scale = scale (transform p), tx = ox g, ty = oy g\<rparr> p0
         else if down g then setSwipeOffsetY (max 0 (my g)) p0
         else
           (let threshold = 100;
                p1 = (if my g > threshold then emit RequestClose p0 else p0)
            in setSwipeOffsetY 0 p1))"

definition Pinchable_onPinch :: "real \<Rightarrow> pinchable \<Rightarrow> pinchable" where
  "Pinchable_onPinch s p =
     (let p0 = emit PreventDefault p;
          newScale = max 1 (min s 4);
          p1 = setTransform \<lparr>scale = newScale, tx = 0, ty = 0\<rparr> p0
      in emit (ZoomChange (newScale > 1)) p1)"

definition Pinchable_onWheel :: "bool \<Rightarrow> pinchable \<Rightarrow> pinchable" where
  "Pinchable_onWheel ctrlKey p = (if ctrlKey then emit PreventDefault p else p)"

text \<open>\<open>onTarget\<close> is \<^verbatim>\<open>e.target === e.currentTarget\<close>.\<close>

definition handleClick :: "bool \<Rightarrow> pinchable \<Rightarrow> pinchable" where
  "handleClick onTarget p =
     (if scale (transform p) \<noteq> 1 then p
      else if onTarget then emit RequestClose p else p)"

definition handleDoubleClick :: "pinchable \<Rightarrow> pinchable" where
  "handleDoubleClick p =
     (let p0 = emit (ConsoleLog ''hi'') p;
          p1 = emit StopPropagation p0;
          p2 = setTransform \<lparr>scale = 1, tx = 0, ty = 0\<rparr> p1
      in emit (ZoomChange False) p2)"

definition handleKeyDown :: "string \<Rightarrow> pinchable \<Rightarrow> pinchable" where
  "handleKeyDown k p =
     (if scale (transform p) = 1 then p
      else if k = ''ArrowLeft'' \<or> k = ''ArrowRight'' then emit StopPropagation p else p)"

text \<open>The rendered style: opacity and vertical translation.\<close>

definition opacity :: "pinchable \<Rightarrow> real" where
  "opacity p =
     (if scale (transform p) = 1 then max 0.5 (1 - swipeOffsetY p / 300) else 1)"

definition translateY :: "pinchable \<Rightarrow> real" where
  "translateY p = ty (transform p) + (if scale (transform p) = 1 then swipeOffsetY p else 0)"

text \<open>Sequences of operations on one pinchable wrapper.\<close>

datatype pinchable_op =
    Drag drag_state
  | Pinch real
  | Wheel bool
  | Click bool
  | DoubleClick
  | KeyDown string

fun Pinchable_step :: "pinchable_op \<Rightarrow> pinchable \<Rightarrow> pinchable" where
  "Pinchable_step (Drag g) p = Pinchable_onDrag g p"
| "Pinchable_step (Pinch s) p = Pinchable_onPinch s p"
| "Pinchable_step (Wheel c) p = Pinchable_onWheel c p"
| "Pinchable_step (Click t) p = handleClick t p"
| "Pinchable_step DoubleClick p = handleDoubleClick p"
| "Pinchable_step (KeyDown k) p = handleKeyDown k p"

definition Pinchable_run :: "pinchable_op list \<Rightarrow> pinchable \<Rightarrow> pinchable" where
  "Pinchable_run ops p = foldl (\<lambda>q x. Pinchable_step x q) p ops"

section \<open>States used in the examples\<close>

text \<open>The hook before any instance has mounted and any item was registered.\<close>

definition hook_init :: "'a hook" where
  "hook_init = \<lparr>trace = [], items = [], setOpens = [], isOpen = (\<lambda>v. None)\<rparr>"

definition viewport_init :: "'a viewport" where
  "viewport_init =
     \<lparr>trace = [], items = [], setOpens = [], isOpen = (\<lambda>v. None), offsetX = 0\<rparr>"

text \<open>
  One render pass that registers the given items, in order, with \<^verbatim>\<open>getOnClick\<close>.
\<close>

definition render_with :: "'a list \<Rightarrow> ('a, 'z) hook_scheme \<Rightarrow> ('a, 'z) hook_scheme" where
  "render_with its h = foldl (\<lambda>s item. snd (getOnClick item s)) (useLightbox_render h) its"

text \<open>
  A gallery of three items with one mounted viewer (instance 0), opened by a click on the
  second item.
\<close>

definition gallery3 :: "jsval viewport" where
  "gallery3 =
     getOnClick_handler 1 False
       (render_with [JObj 0, JObj 1, JObj 2] (subscribe 0 viewport_init))"

text \<open>
  A viewer opened on the only item of a gallery whose next render pass registers no item:
  the viewer is open at index 0 and the item list is empty.
\<close>

definition emptied :: "jsval viewport" where
  "emptied =
     render_with []
       (getOnClick_handler 0 False (render_with [JObj 0] (subscribe 0 viewport_init)))"







text \<open>Two mounted viewer instances (0 and 1) over a gallery of two items, both closed.\<close>

definition two_views :: "jsval hook" where
  "two_views = render_with [JObj 0, JObj 1] (subscribe 1 (subscribe 0 hook_init))"

text \<open>
  Gesture states: a pointer held down after moving \<open>dx\<close>, \<open>dy\<close> from the initial
  position \<open>x0\<close>, and the release of such a gesture; \<open>dir\<close> is the horizontal
  direction the library reports.
\<close>

definition held :: "real \<Rightarrow> real \<Rightarrow> real \<Rightarrow> real \<Rightarrow> drag_state" where
  "held x0 dx dy dir =
     \<lparr>down = True, mx = dx, my = dy, xDir = dir, ix = x0, ox = dx, oy = dy, pinching = False\<rparr>"

definition released :: "real \<Rightarrow> real \<Rightarrow> real \<Rightarrow> real \<Rightarrow> drag_state" where
  "released x0 dx dy dir = (held x0 dx dy dir)\<lparr>down := False\<rparr>"

text \<open>A non-null current index is valid when it is an index into the item list.\<close>

definition valid_index :: "int option \<Rightarrow> 'a list \<Rightarrow> bool" where
  "valid_index i its = (case i of None \<Rightarrow> True | Some n \<Rightarrow> 0 \<le> n \<and> n < int (length its))"

section \<open>Auxiliary facts\<close>

lemmas hook_defs = setIndex_def setOpen_def emit_def handleClose_def getOnClick_def
  getOnClick_handler_def subscribe_def unsubscribe_def useLightbox_render_def render_with_def
  context_of_def hook_init_def viewport_init_def Let_def

lemma gallery3_simps:
  "items gallery3 = [JObj 0, JObj 1, JObj 2]"
  "isOpen gallery3 0 = Some 1"
  "setOpens gallery3 = [0]"
  "offsetX gallery3 = 0"
  "trace gallery3 = [OnClick, SetOpen 0 (Some 1), VisibilityChange True]"
  by (simp_all add: gallery3_def hook_defs)

lemma emptied_simps:
  "items emptied = []"
  "isOpen emptied 0 = Some 0"
  "setOpens emptied = [0]"
  "offsetX emptied = 0"
  by (simp_all add: emptied_def hook_defs)



text \<open>After a render, the held context carries the instance's current index.\<close>

lemma LightboxView_context_currentIndex:
  "currentIndex (LightboxView_context v prev h) = isOpen h v"
  by (simp add: LightboxView_context_def context_of_def split: option.splits)

lemma two_views_simps:
  "items two_views = [JObj 0, JObj 1]"
  "setOpens two_views = [0, 1]"
  "trace two_views = []"
  by (simp_all add: two_views_def hook_defs)

lemma held_simps:
  "down (held x0 dx dy dir)" "mx (held x0 dx dy dir) = dx" "my (held x0 dx dy dir) = dy"
  "xDir (held x0 dx dy dir) = dir" "ix (held x0 dx dy dir) = x0"
  "\<not> pinching (held x0 dx dy dir)"
  by (simp_all add: held_def)

lemma released_simps:
  "\<not> down (released x0 dx dy dir)" "mx (released x0 dx dy dir) = dx"
  "my (released x0 dx dy dir) = dy" "xDir (released x0 dx dy dir) = dir"
  "ix (released x0 dx dy dir) = x0" "\<not> pinching (released x0 dx dy dir)"
  by (simp_all add: released_def held_def)

lemma emit_simps:
  "trace (emit e s) = trace s @ [e]"
  "isOpen (emit e s) = isOpen s"
  "items (emit e s) = items s"
  "setOpens (emit e s) = setOpens s"
  by (simp_all add: emit_def)

lemma emit_offsetX: "offsetX (emit e s) = offsetX s"
  by (simp add: emit_def)

lemma setOffset_simps:
  "offsetX (setOffset x s) = x"
  "isOpen (setOffset x s) = isOpen s"
  "items (setOffset x s) = items s"
  "trace (setOffset x s) = trace s @ [SetOffset x]"
  by (simp_all add: setOffset_def emit_def)


lemma handleClose_effect:
  "isOpen (handleClose v h) v = None \<and>
   trace (handleClose v h) = trace h @ [SetOpen v None, VisibilityChange False]"
  by (simp add: handleClose_def setOpen_def emit_def Let_def)

lemma setIndex_null_effect:
  "isOpen (setIndex v (Index None) h) v = None \<and>
   trace (setIndex v (Index None) h) = trace h @ [SetOpen v None]"
  by (simp add: setIndex_def setOpen_def emit_def Let_def)

lemma pin_simps:
  "transform (emit e p) = transform p"
  "swipeOffsetY (emit e p) = swipeOffsetY p"
  "transform (setTransform t p) = t"
  "swipeOffsetY (setTransform t p) = swipeOffsetY p"
  "trace (setTransform t p) = trace p @ [SetTransform (scale t) (tx t) (ty t)]"
  "transform (setSwipeOffsetY d p) = transform p"
  "swipeOffsetY (setSwipeOffsetY d p) = d"
  "trace (setSwipeOffsetY d p) = trace p @ [SetSwipeOffsetY d]"
  by (simp_all add: emit_def setTransform_def setSwipeOffsetY_def)

text \<open>Every handler of the pinchable wrapper keeps the scale within \<open>[1, 4]\<close>.\<close>

lemma step_scale:
  assumes "1 \<le> scale (transform p)" and "scale (transform p) \<le> 4"
  shows "1 \<le> scale (transform (Pinchable_step x p)) \<and>
         scale (transform (Pinchable_step x p)) \<le> 4"
  using assms
  by (cases x)
    (auto simp: Pinchable_onDrag_def Pinchable_onPinch_def Pinchable_onWheel_def handleClick_def
      handleDoubleClick_def handleKeyDown_def pin_simps Let_def)

lemma run_scale:
  assumes "1 \<le> scale (transform p)" and "scale (transform p) \<le> 4"
  shows "1 \<le> scale (transform (Pinchable_run ops p)) \<and>
         scale (transform (Pinchable_run ops p)) \<le> 4"
  using assms unfolding Pinchable_run_def
proof (induction ops arbitrary: p)
  case Nil
  then show ?case by simp
next
  case (Cons x ops)
  from step_scale [OF Cons.prems, of x] Cons.IH [of "Pinchable_step x p"]
  show ?case by simp
qed

lemma visibleIndices_Some:
  "currentIndex ctx = Some c \<Longrightarrow>
   visibleIndices ctx =
     filter (\<lambda>i. i \<ge> 0 \<and> i < int (length (ctx_items ctx))) [c - 1, c, c + 1]"
  by (simp add: visibleIndices_def)

text \<open>The broadcast loop of the click handler, over any list of subscribers.\<close>

lemma broadcast_fold:
  "trace (foldl (\<lambda>s v. emit (VisibilityChange True) (setOpen v (Index (Some i)) s)) h vs) =
     trace h @ concat (map (\<lambda>v. [SetOpen v (Some i), VisibilityChange True]) vs) \<and>
   isOpen (foldl (\<lambda>s v. emit (VisibilityChange True) (setOpen v (Index (Some i)) s)) h vs) =
     (\<lambda>v. if v \<in> set vs then Some i else isOpen h v)"
proof (induction vs arbitrary: h)
  case Nil
  show ?case by simp
next
  case (Cons a vs)
  show ?case
    by (simp add: Cons.IH [of "emit (VisibilityChange True) (setOpen a (Index (Some i)) h)"])
       (auto simp: setOpen_def emit_def Let_def)
qed

lemma count_broadcast:
  "count_list (concat (map (\<lambda>v. [SetOpen v (Some i), VisibilityChange True]) vs))
     (VisibilityChange True) = length vs"
  by (induction vs) simp_all

section \<open>The stored index: \<^verbatim>\<open>setCurrentIndex\<close> and \<^verbatim>\<open>close\<close>\<close>

text \<open>
  C1, as stated, fails: the spec says that for every input and every item list the value
  stored by \<^verbatim>\<open>setCurrentIndex\<close> is null or a valid index into the item list. On an empty
  item list \<^verbatim>\<open>Math.max(0, Math.min(next, -1))\<close> is 0, which is stored although the list
  has no index 0. The state \<open>emptied\<close> is a viewer left open over a gallery that has
  lost its items; \<^verbatim>\<open>setCurrentIndex(5)\<close> there stores 0.
\<close>

theorem C1_counterexample:
  "\<not> valid_index (isOpen (setIndex 0 (Index (Some 5)) emptied) 0)
       (items (setIndex 0 (Index (Some 5)) emptied))"
  by (simp add: valid_index_def emptied_simps setIndex_def setOpen_def emit_def Let_def)

text \<open>
  C1, amended: for every value or updater input and every non-empty item list, the value
  stored by \<^verbatim>\<open>setCurrentIndex\<close> is null or an integer in \<open>[0, length - 1]\<close>; on an empty
  item list it is null or 0. The value is stored by exactly one write of the state cell.
\<close>

theorem C1_setIndex_range:
  "(items h \<noteq> [] \<longrightarrow>
      valid_index (isOpen (setIndex v a h) v) (items (setIndex v a h))) \<and>
   (items h = [] \<longrightarrow>
      isOpen (setIndex v a h) v = None \<or> isOpen (setIndex v a h) v = Some 0) \<and>
   trace (setIndex v a h) = trace h @ [SetOpen v (isOpen (setIndex v a h) v)]"
  by (cases a) (auto simp: valid_index_def setIndex_def setOpen_def emit_def Let_def
      split: option.splits)

text \<open>
  C1, witness: in the three-item gallery \<^verbatim>\<open>setCurrentIndex(7)\<close> stores 2; in the emptied
  gallery it stores 0.
\<close>

theorem C1_setIndex_range_witness:
  "items gallery3 \<noteq> [] \<and>
   isOpen (setIndex 0 (Index (Some 7)) gallery3) 0 = Some 2 \<and>
   valid_index (isOpen (setIndex 0 (Index (Some 7)) gallery3) 0)
     (items (setIndex 0 (Index (Some 7)) gallery3)) \<and>
   items emptied = [] \<and>
   isOpen (setIndex 0 (Index (Some 7)) emptied) 0 = Some 0"
  using C1_setIndex_range [of gallery3 0 "Index (Some 7)"]
    C1_setIndex_range [of emptied 0 "Index (Some 7)"]
  by (simp add: gallery3_simps emptied_simps valid_index_def setIndex_def setOpen_def
      emit_def Let_def)

text \<open>
  C2 says that \<^verbatim>\<open>close()\<close> and \<^verbatim>\<open>setCurrentIndex(null)\<close> are equivalent: both store null
  and both fire visibility-changed(false). In the code both store null, but only
  \<^verbatim>\<open>close()\<close> calls \<^verbatim>\<open>onVisibilityChange(false)\<close>; \<^verbatim>\<open>setCurrentIndex(null)\<close> closes the
  viewer silently. Evaluated on the open three-item gallery:
\<close>

theorem C2_setIndex_null_silent:
  "isOpen (handleClose 0 gallery3) 0 = None \<and>
   isOpen (setIndex 0 (Index None) gallery3) 0 = None \<and>
   trace (handleClose 0 gallery3) =
     trace gallery3 @ [SetOpen 0 None, VisibilityChange False] \<and>
   trace (setIndex 0 (Index None) gallery3) = trace gallery3 @ [SetOpen 0 None] \<and>
   VisibilityChange False \<notin> set (trace (setIndex 0 (Index None) gallery3))"
  by (simp add: handleClose_effect setIndex_null_effect gallery3_simps)

section \<open>Keyboard navigation\<close>




section \<open>Drag navigation on an item slot\<close>




text \<open>
  C5: while the pointer of a drag on an item slot is down and the root container is mounted
  with client width \<open>w\<close> (current index non-null), a drag whose initial x position lies in
  the central 30 percent of the width (strictly between \<open>0.35 w\<close> and \<open>0.65 w\<close>) is
  cancelled at once: the handler only calls \<^verbatim>\<open>cancel()\<close>, and the drag offset and the
  current index are unchanged. The drag is honoured (the offset follows the movement) only
  if the initial position lies within the outer 35 percent on either edge.
\<close>

theorem C5_edge_gating:
  assumes "currentIndex ctx = Some c" and "down g"
  shows "(0.35 * w < ix g \<and> ix g < 0.65 * w \<longrightarrow>
            Item_onDrag ctx (Some w) v g s = emit Cancel s \<and>
            offsetX (Item_onDrag ctx (Some w) v g s) = offsetX s \<and>
            isOpen (Item_onDrag ctx (Some w) v g s) = isOpen s \<and>
            trace (Item_onDrag ctx (Some w) v g s) = trace s @ [Cancel]) \<and>
         (trace (Item_onDrag ctx (Some w) v g s) \<noteq> trace s @ [Cancel] \<longrightarrow>
            (ix g \<le> 0.35 * w \<or> 0.65 * w \<le> ix g) \<and>
            Item_onDrag ctx (Some w) v g s = setOffset (mx g) s)"
  using assms by (auto simp: Item_onDrag_def Let_def emit_simps emit_offsetX)

text \<open>
  C5, witness: in a root 1000 pixels wide, a drag that starts at x = 500 is cancelled and
  leaves the offset at 0; one that starts at x = 900 moves the offset.
\<close>

theorem C5_edge_gating_witness:
  "currentIndex (context_of 0 gallery3) = Some 1 \<and>
   down (held 500 (- 20) 0 (- 1)) \<and>
   0.35 * 1000 < ix (held 500 (- 20) 0 (- 1)) \<and>
   ix (held 500 (- 20) 0 (- 1)) < 0.65 * 1000 \<and>
   trace (Item_onDrag (context_of 0 gallery3) (Some 1000) 0 (held 500 (- 20) 0 (- 1)) gallery3)
     = trace gallery3 @ [Cancel] \<and>
   offsetX (Item_onDrag (context_of 0 gallery3) (Some 1000) 0 (held 500 (- 20) 0 (- 1)) gallery3)
     = 0 \<and>
   isOpen (Item_onDrag (context_of 0 gallery3) (Some 1000) 0 (held 500 (- 20) 0 (- 1)) gallery3) 0
     = Some 1 \<and>
   trace (Item_onDrag (context_of 0 gallery3) (Some 1000) 0 (held 900 (- 20) 0 (- 1)) gallery3)
     = trace gallery3 @ [SetOffset (- 20)]"
  using C5_edge_gating [of "context_of 0 gallery3" 1 "held 500 (- 20) 0 (- 1)" 1000 0 gallery3]
    C5_edge_gating [of "context_of 0 gallery3" 1 "held 900 (- 20) 0 (- 1)" 1000 0 gallery3]
  by (simp add: gallery3_simps context_of_def setOffset_simps held_simps Item_onDrag_def
      Let_def emit_simps emit_offsetX)

section \<open>The pinchable wrapper\<close>

text \<open>
  C6: after every sequence of operations on a pinchable wrapper (drag, pinch, wheel, click,
  double-click, key press), starting from its mounted state, the scale of the transform
  lies in \<open>[1, 4]\<close>; every pinch update stores the incoming scale clamped into
  \<open>[1, 4]\<close> together with the pan \<open>(0, 0)\<close>.
\<close>

theorem C6_scale_bounds:
  "1 \<le> scale (transform (Pinchable_run ops Pinchable_init)) \<and>
   scale (transform (Pinchable_run ops Pinchable_init)) \<le> 4 \<and>
   transform (Pinchable_onPinch s p) = \<lparr>scale = max 1 (min s 4), tx = 0, ty = 0\<rparr> \<and>
   1 \<le> scale (transform (Pinchable_onPinch s p)) \<and>
   scale (transform (Pinchable_onPinch s p)) \<le> 4"
proof -
  have "1 \<le> scale (transform Pinchable_init)" "scale (transform Pinchable_init) \<le> 4"
    by (simp_all add: Pinchable_init_def)
  from run_scale [OF this, of ops] show ?thesis
    by (simp add: Pinchable_onPinch_def pin_simps Let_def)
qed

text \<open>
  C6, at a concrete sequence: a pinch to 7 stores scale 4, a pan keeps it, a pinch to 0.3
  stores scale 1.
\<close>

theorem C6_scale_bounds_witness:
  "scale (transform (Pinchable_run [Pinch 7] Pinchable_init)) = 4 \<and>
   transform (Pinchable_run [Pinch 7, Drag (held 0 30 40 1)] Pinchable_init) =
     \<lparr>scale = 4, tx = 30, ty = 40\<rparr> \<and>
   transform (Pinchable_run [Pinch 7, Drag (held 0 30 40 1), Pinch 0.3] Pinchable_init) =
     \<lparr>scale = 1, tx = 0, ty = 0\<rparr> \<and>
   1 \<le> scale (transform (Pinchable_run [Pinch 7, Drag (held 0 30 40 1)] Pinchable_init))"
  using C6_scale_bounds [of "[Pinch 7, Drag (held 0 30 40 1)]" 7 Pinchable_init]
  by (simp add: Pinchable_run_def Pinchable_onPinch_def Pinchable_onDrag_def Pinchable_init_def
      pin_simps held_def Let_def)

text \<open>
  C7, as stated, fails: the spec says that every unzoomed vertical drag resets the swipe
  offset to 0 on every release and fires the close-intercept callback when released past
  100 pixels. A drag event that arrives while a pinch is in progress is cancelled before
  any of that: after a downward drag of 50 pixels, a release at 120 pixels with
  \<^verbatim>\<open>pinching\<close> set leaves the swipe offset at 50 and does not call the callback.
\<close>

theorem C7_counterexample:
  "scale (transform (Pinchable_onDrag (held 0 0 50 0) Pinchable_init)) = 1 \<and>
   swipeOffsetY
     (Pinchable_onDrag ((released 0 0 120 0)\<lparr>pinching := True\<rparr>)
       (Pinchable_onDrag (held 0 0 50 0) Pinchable_init)) = 50 \<and>
   RequestClose \<notin> set (trace
     (Pinchable_onDrag ((released 0 0 120 0)\<lparr>pinching := True\<rparr>)
       (Pinchable_onDrag (held 0 0 50 0) Pinchable_init)))"
  by (simp add: Pinchable_onDrag_def Pinchable_init_def pin_simps held_def released_def Let_def
      emit_def setSwipeOffsetY_def)

text \<open>
  C7, amended: for every drag event on an unzoomed pinchable wrapper (scale 1) that arrives
  while no pinch is in progress: while the pointer is down the swipe offset is
  \<open>max(0, my)\<close> and the opacity \<open>max(0.5, 1 - offset / 300)\<close>; on release the
  close-intercept callback is called exactly once if \<open>my > 100\<close> and not at all otherwise,
  and the swipe offset is reset to 0 in both cases. The transform is unchanged. (A drag
  event that arrives during a pinch is cancelled and changes nothing.)
\<close>

theorem C7_swipe_to_close:
  assumes "scale (transform p) = 1" and "\<not> pinching g"
  shows "(down g \<longrightarrow>
            swipeOffsetY (Pinchable_onDrag g p) = max 0 (my g) \<and>
            opacity (Pinchable_onDrag g p) = max 0.5 (1 - max 0 (my g) / 300) \<and>
            trace (Pinchable_onDrag g p) = trace p @ [SetSwipeOffsetY (max 0 (my g))]) \<and>
         (\<not> down g \<longrightarrow>
            swipeOffsetY (Pinchable_onDrag g p) = 0 \<and>
            trace (Pinchable_onDrag g p) =
              trace p @ (if my g > 100 then [RequestClose] else []) @ [SetSwipeOffsetY 0]) \<and>
         transform (Pinchable_onDrag g p) = transform p \<and>
         (pinching g' \<longrightarrow> Pinchable_onDrag g' p = emit Cancel p)"
  using assms by (auto simp: Pinchable_onDrag_def opacity_def pin_simps Let_def emit_def)

text \<open>
  C7, witness: unzoomed, a downward drag held at 60 pixels gives offset 60 and opacity 0.8;
  released at 120 pixels it calls the close-intercept callback once and resets the offset.
\<close>

theorem C7_swipe_to_close_witness:
  "scale (transform Pinchable_init) = 1 \<and>
   \<not> pinching (held 0 0 60 0) \<and> down (held 0 0 60 0) \<and>
   swipeOffsetY (Pinchable_onDrag (held 0 0 60 0) Pinchable_init) = 60 \<and>
   opacity (Pinchable_onDrag (held 0 0 60 0) Pinchable_init) = 0.8 \<and>
   \<not> pinching (released 0 0 120 0) \<and> \<not> down (released 0 0 120 0) \<and>
   trace (Pinchable_onDrag (released 0 0 120 0) Pinchable_init) =
     [RequestClose, SetSwipeOffsetY 0] \<and>
   swipeOffsetY (Pinchable_onDrag (released 0 0 120 0) Pinchable_init) = 0"
  using C7_swipe_to_close [of Pinchable_init "held 0 0 60 0"]
    C7_swipe_to_close [of Pinchable_init "released 0 0 120 0"]
  by (simp add: Pinchable_init_def held_simps released_simps)

text \<open>
  C8: from every state of a pinchable wrapper (any scale, any pan), a double click stores
  the transform \<open>{scale: 1, x: 0, y: 0}\<close> and then reports unzoomed: the zoom-change
  callback is called once, with false.
\<close>

theorem C8_double_click:
  "transform (handleDoubleClick p) = \<lparr>scale = 1, tx = 0, ty = 0\<rparr> \<and>
   trace (handleDoubleClick p) =
     trace p @ [ConsoleLog ''hi'', StopPropagation, SetTransform 1 0 0, ZoomChange False] \<and>
   swipeOffsetY (handleDoubleClick p) = swipeOffsetY p"
  by (simp add: handleDoubleClick_def pin_simps Let_def emit_def)

section \<open>Windowing\<close>

text \<open>
  C9, as stated, fails: the spec says the viewport mounts item slots exactly for the indices
  \<open>{c - 1, c, c + 1}\<close> clipped to \<open>[0, length)\<close>. The viewport's callback returns null
  for an item that is falsy (\<^verbatim>\<open>if (!item) return null\<close>): over the one-item list holding the
  number 0, at index 0, no slot is mounted although index 0 is in the window.
\<close>

theorem C9_counterexample:
  "set (Viewport_slots \<lparr>ctx_items = [JNum 0], currentIndex = Some 0\<rparr>) \<noteq>
   spec_window 0 (length [JNum 0])"
  by (simp add: Viewport_slots_def visibleIndices_def item_at_def spec_window_def)

text \<open>
  C9, amended: for every non-null current index \<open>c\<close> and every item list, the viewport
  mounts item slots exactly for those indices of \<open>{c - 1, c, c + 1}\<close> clipped to
  \<open>[0, length)\<close> whose item is truthy, each once: never more than 3 slots, and only for
  valid indices. When every item in the window is truthy these are exactly the indices of
  the window.
\<close>

theorem C9_viewport_window:
  assumes "currentIndex ctx = Some c"
  shows "set (Viewport_slots ctx) =
           {i \<in> spec_window c (length (ctx_items ctx)). truthy (item_at (ctx_items ctx) i)} \<and>
         distinct (Viewport_slots ctx) \<and>
         length (Viewport_slots ctx) \<le> 3 \<and>
         set (Viewport_slots ctx) \<subseteq> {0 ..< int (length (ctx_items ctx))} \<and>
         ((\<forall>i \<in> spec_window c (length (ctx_items ctx)). truthy (item_at (ctx_items ctx) i)) \<longrightarrow>
            set (Viewport_slots ctx) = spec_window c (length (ctx_items ctx)))"
proof -
  let ?n = "int (length (ctx_items ctx))"
  let ?vis = "filter (\<lambda>i. i \<ge> 0 \<and> i < ?n) [c - 1, c, c + 1]"
  have vis: "visibleIndices ctx = ?vis"
    using assms by (rule visibleIndices_Some)
  have set_vis: "set ?vis = spec_window c (length (ctx_items ctx))"
    by (auto simp: spec_window_def)
  have slots: "Viewport_slots ctx = filter (\<lambda>i. truthy (item_at (ctx_items ctx) i)) ?vis"
    by (simp only: Viewport_slots_def vis)
  have 1: "set (Viewport_slots ctx) =
      {i \<in> spec_window c (length (ctx_items ctx)). truthy (item_at (ctx_items ctx) i)}"
    unfolding slots using set_vis by auto
  have "distinct [c - 1, c, c + 1]"
    by simp
  then have 2: "distinct (Viewport_slots ctx)"
    unfolding slots by (intro distinct_filter)
  have "length (Viewport_slots ctx) \<le> length [c - 1, c, c + 1]"
    unfolding slots by (rule order_trans [OF length_filter_le length_filter_le])
  then have 3: "length (Viewport_slots ctx) \<le> 3"
    by simp
  have 4: "set (Viewport_slots ctx) \<subseteq> {0 ..< ?n}"
    unfolding 1 by (auto simp: spec_window_def)
  have 5: "(\<forall>i \<in> spec_window c (length (ctx_items ctx)). truthy (item_at (ctx_items ctx) i)) \<longrightarrow>
            set (Viewport_slots ctx) = spec_window c (length (ctx_items ctx))"
    unfolding 1 by auto
  from 1 2 3 4 5 show ?thesis
    by blast
qed

text \<open>
  C9, witness: at index 1 of the three-item gallery the slots 0, 1, 2 are mounted; at
  index 2 of a four-item list whose second item is the number 0, the slots 2 and 3.
\<close>

theorem C9_viewport_window_witness:
  "currentIndex (context_of 0 gallery3) = Some 1 \<and>
   Viewport_slots (context_of 0 gallery3) = [0, 1, 2] \<and>
   set (Viewport_slots (context_of 0 gallery3)) = spec_window 1 (length (items gallery3)) \<and>
   Viewport_slots \<lparr>ctx_items = [JObj 0, JNum 0, JObj 2, JObj 3], currentIndex = Some 2\<rparr> =
     [2, 3]"
  using C9_viewport_window [of "context_of 0 gallery3" 1]
    C9_viewport_window
      [of "\<lparr>ctx_items = [JObj 0, JNum 0, JObj 2, JObj 3], currentIndex = Some 2\<rparr>" 2]
  by (auto simp: gallery3_simps context_of_def Viewport_slots_def visibleIndices_def item_at_def
      spec_window_def)

section \<open>Opening by click\<close>

text \<open>
  C10: when the handler returned by \<^verbatim>\<open>getOnClick(item)\<close> runs and the click was not
  default-prevented, it goes through the subscriber set and, for each subscribed viewer
  instance in turn, sets that instance's index to the item's position and then fires
  visibility-changed(true): with N subscribers one click produces N notifications, and
  every subscriber ends at the item's position. A default-prevented click does neither.
  The item's position is the length of the list before the item was pushed.
\<close>

theorem C10_click_broadcast:
  "trace (getOnClick_handler i False h) =
     trace h @ [OnClick] @
     concat (map (\<lambda>v. [SetOpen v (Some i), VisibilityChange True]) (setOpens h)) \<and>
   count_list (trace (getOnClick_handler i False h)) (VisibilityChange True) =
     count_list (trace h) (VisibilityChange True) + length (setOpens h) \<and>
   (\<forall>v \<in> set (setOpens h). isOpen (getOnClick_handler i False h) v = Some i) \<and>
   trace (getOnClick_handler i True h) = trace h @ [OnClick] \<and>
   fst (getOnClick item h) = int (length (items h)) \<and>
   items (snd (getOnClick item h)) = items h @ [item]"
proof -
  have h1: "setOpens (emit OnClick h) = setOpens h"
    "trace (emit OnClick h) = trace h @ [OnClick]"
    by (simp_all add: emit_def)
  have tr: "trace (getOnClick_handler i False h) =
     trace h @ [OnClick] @
     concat (map (\<lambda>v. [SetOpen v (Some i), VisibilityChange True]) (setOpens h))"
    by (simp add: getOnClick_handler_def Let_def broadcast_fold h1)
  have "isOpen (getOnClick_handler i False h) =
      (\<lambda>v. if v \<in> set (setOpens h) then Some i else isOpen (emit OnClick h) v)"
    by (simp add: getOnClick_handler_def Let_def broadcast_fold h1)
  then have op: "\<forall>v \<in> set (setOpens h). isOpen (getOnClick_handler i False h) v = Some i"
    by simp
  have cnt: "count_list (trace (getOnClick_handler i False h)) (VisibilityChange True) =
     count_list (trace h) (VisibilityChange True) + length (setOpens h)"
    unfolding tr by (simp add: count_broadcast)
  show ?thesis
    using tr op cnt by (simp add: getOnClick_handler_def getOnClick_def Let_def emit_def)
qed

text \<open>
  C10, witness: with two mounted viewer instances, a click on the second item writes index 1
  to each instance and fires visibility-changed(true) twice.
\<close>

theorem C10_click_broadcast_witness:
  "setOpens two_views = [0, 1] \<and>
   trace (getOnClick_handler 1 False two_views) =
     [OnClick, SetOpen 0 (Some 1), VisibilityChange True,
      SetOpen 1 (Some 1), VisibilityChange True] \<and>
   count_list (trace (getOnClick_handler 1 False two_views)) (VisibilityChange True) = 2 \<and>
   isOpen (getOnClick_handler 1 False two_views) 0 = Some 1 \<and>
   isOpen (getOnClick_handler 1 False two_views) 1 = Some 1"
  using C10_click_broadcast [of 1 two_views]
  by (simp add: two_views_simps)

end
